theory Spec2Isabelle
  imports Main "HOL-Library.Sublist"
begin

section \<open>Values, errors and the data model (src/models/task.py)\<close>

text \<open>
  Python values that cross the result store: the payload a task returned, the exception a
  task raised (\<open>PyExc\<close>, with the text \<open>str\<close> gives for it) or a metadata dictionary.
  \<open>PyNone\<close> is Python's \<open>None\<close>.
\<close>

datatype pyval =
    PyNone
  | PyBool bool
  | PyInt int
  | PyStr string
  | PyExc string
  | PyList "pyval list"
  | PyDict "(string \<times> pyval) list"

text \<open>Every exception the modelled code can raise is a value.\<close>

datatype error =
    ValueError string
  | TypeError string
  | AttributeError string
  | FileExistsError
  | NotADirectoryError
  | FileNotFoundError
  | OSError string
  | EncodeError
  | HTTPError

datatype WorkerType = IO | CPU | GPU

datatype TaskState = PENDING | RECEIVED | STARTED | SUCCESS | FAILURE | TIMEOUT | REVOKED

text \<open>
  \<open>TaskState(value)\<close>: the lookup of an enum member by its value. A string that is
  the value of no member raises \<open>ValueError\<close>.
\<close>

definition TaskState_of :: "string \<Rightarrow> error + TaskState" where
  "TaskState_of s =
     (if s = ''PENDING'' then Inr PENDING
      else if s = ''RECEIVED'' then Inr RECEIVED
      else if s = ''STARTED'' then Inr STARTED
      else if s = ''SUCCESS'' then Inr SUCCESS
      else if s = ''FAILURE'' then Inr FAILURE
      else if s = ''TIMEOUT'' then Inr TIMEOUT
      else if s = ''REVOKED'' then Inr REVOKED
      else Inl (ValueError (CHR 0x27 # s @ CHR 0x27 # '' is not a valid TaskState'')))"

text \<open>Times are integers, in microseconds (the resolution of \<open>datetime\<close>).\<close>

definition seconds :: "int \<Rightarrow> int" where
  "seconds n = n * 1000000"

record SubTaskConfig =
  name :: string
  worker_type :: WorkerType
  queue :: string
  args :: "pyval list"
  kwargs :: "(string \<times> pyval) list"
  priority :: int
  timeout :: "int option"

record TaskStatus =
  task_id :: string
  state :: TaskState
  progress :: "int option"
  result :: pyval
  error :: "string option"
  submitted_at :: "int option"
  started_at :: "int option"
  completed_at :: "int option"
  subtasks :: "string list"

section \<open>Configuration (src/core/config.py)\<close>

record Settings =
  task_default_timeout :: int
  task_queue_timeout :: int
  queue_main :: string
  queue_io :: string
  queue_cpu :: string
  queue_gpu_general :: string
  queue_gpu_portrait :: string
  queue_gpu_landscape :: string
  shared_tmp_path :: string
  admin_webhook_url :: "string option"
  admin_email :: "string option"

text \<open>The defaults of the class, used when the environment overrides nothing.\<close>

definition default_settings :: Settings where
  "default_settings =
     \<lparr> task_default_timeout = 300,
       task_queue_timeout = 30,
       queue_main = ''main'',
       queue_io = ''io'',
       queue_cpu = ''cpu'',
       queue_gpu_general = ''gpu-general'',
       queue_gpu_portrait = ''gpu-portrait'',
       queue_gpu_landscape = ''gpu-landscape'',
       shared_tmp_path = ''/tmp/shared/tasks'',
       admin_webhook_url = None,
       admin_email = None \<rparr>"

section \<open>The world the task manager acts on\<close>

text \<open>
  What the result backend holds for a task id: Celery's task meta, the state string and the
  value behind \<open>AsyncResult.result\<close> and \<open>AsyncResult.info\<close> (one attribute under two names).
\<close>

record task_meta =
  meta_status :: string
  meta_result :: pyval

text \<open>
  A \<open>datetime\<close> is naive or carries an offset; both are kept as the instant they denote.
  \<open>utcnow()\<close> is naive, and subtracting an aware value from a naive one raises \<open>TypeError\<close>.
\<close>

datatype datetime = Naive int | Aware int

datatype log_level = INFO | WARNING | ERROR

text \<open>Log records, kept structured: one constructor for each message the code formats.\<close>

datatype log_msg =
    Submitted_subtasks nat string "string list"
  | Task_timeout string int
  | Timed_out_in_queue string int
  | Webhook_sent string
  | Webhook_failed error
  | Would_send_email string string
  | Cleaned_up string
  | Cleanup_failed string error

record webhook_payload =
  event :: string
  payload_task_id :: string
  wait_time :: int
  message :: string

text \<open>
  A registered task: its name and the parameters its function takes after \<open>self\<close>, in
  order, each with the flag that it has a default. The signature
  \<open>task_func.signature(...)\<close> builds from a config carries the task with the arguments.
\<close>

datatype Task = Task string "(string \<times> bool) list"

record Signature =
  sig_task :: string
  sig_params :: "(string \<times> bool) list"
  sig_args :: "pyval list"
  sig_kwargs :: "(string \<times> pyval) list"
  sig_priority :: int
  sig_queue :: string
  sig_time_limit :: "int option"

text \<open>
  A message published to the broker: the signature sent, the id it was frozen with, and the
  rest of a chain (each later stage with its id) when the message starts one.
\<close>

record broker_message =
  msg_id :: string
  msg_sig :: Signature
  msg_chain :: "(string \<times> Signature) list"

type_synonym path = "string list"

datatype node = Dir | File string

text \<open>
  The state outside the process. The backend is given as a timeline: what the workers have
  written by each instant. The task manager never writes it. The broker is reachable and
  takes every message that is sent to it.
\<close>

record world =
  clock :: int
  backend :: "int \<Rightarrow> string \<rightharpoonup> task_meta"
  revoked :: "string list"
  logs :: "(log_level \<times> log_msg) list"
  webhooks :: "(string \<times> webhook_payload) list"
  broker :: "broker_message list"
  next_uuid :: nat
  fs :: "path \<rightharpoonup> node"

text \<open>
  What is fixed during a run: the settings, the task registry \<open>celery_app.tasks\<close>, and the
  library functions whose results the code only passes on (\<open>datetime.fromisoformat\<close>, with
  \<open>None\<close> for the \<open>ValueError\<close> of a malformed string; \<open>str\<close>; the \<open>:.1f\<close> rendering of a
  duration; the uuid generator; the outcome of an HTTP POST, \<open>None\<close> when it succeeds).
  Time passes while the process works: a round trip to the backend that begins at instant
  \<open>t\<close> takes \<open>poll_latency t\<close>, and a sleep that begins at \<open>t\<close> lasts \<open>oversleep t\<close> longer
  than asked for; neither is negative. \<open>cwd\<close> is the working directory of the process.
\<close>

record env =
  settings :: Settings
  tasks :: "string \<rightharpoonup> Task"
  fromisoformat :: "string \<Rightarrow> datetime option"
  py_str :: "pyval \<Rightarrow> string"
  fmt_1f :: "int \<Rightarrow> string"
  uuid :: "nat \<Rightarrow> string"
  http_post :: "string \<Rightarrow> webhook_payload \<Rightarrow> error option"
  poll_latency :: "int \<Rightarrow> nat"
  oversleep :: "int \<Rightarrow> nat"
  cwd :: path

definition logger :: "log_level \<Rightarrow> log_msg \<Rightarrow> world \<Rightarrow> world" where
  "logger lvl m w = w\<lparr>logs := logs w @ [(lvl, m)]\<rparr>"

text \<open>Truthiness of an optional string: \<open>None\<close> and the empty string are false.\<close>

fun truthy_str :: "string option \<Rightarrow> bool" where
  "truthy_str None = False"
| "truthy_str (Some s) = (s \<noteq> [])"

section \<open>Admin notification (src/monitoring/notification.py)\<close>

text \<open>
  \<open>_send_webhook\<close>: one POST; \<open>raise_for_status\<close> raises on a failed one, and the info
  line is logged only after a successful one.
\<close>

definition send_webhook :: "env \<Rightarrow> string \<Rightarrow> webhook_payload \<Rightarrow> world \<Rightarrow> error option \<times> world" where
  "send_webhook e url payload w =
     (let w1 = w\<lparr>webhooks := webhooks w @ [(url, payload)]\<rparr>
      in case http_post e url payload of
           Some err \<Rightarrow> (Some err, w1)
         | None \<Rightarrow> (None, logger INFO (Webhook_sent url) w1))"

text \<open>\<open>_send_email\<close> is a placeholder: it logs what it would send.\<close>

definition send_email :: "string \<Rightarrow> string \<Rightarrow> string \<Rightarrow> world \<Rightarrow> world" where
  "send_email to subject body w = logger INFO (Would_send_email to subject) w"

text \<open>
  \<open>notify_admin_timeout\<close>: the warning is always logged; each channel is tried when it is
  configured, and an exception of a channel is caught and logged. A failed POST has
  still been attempted, so it stays in \<open>webhooks\<close>.
\<close>

definition notify_admin_timeout :: "env \<Rightarrow> world \<Rightarrow> string \<Rightarrow> int \<Rightarrow> world" where
  "notify_admin_timeout e w tid wt =
     (let msg = ''Task '' @ tid @ '' timed out after '' @ fmt_1f e wt @ ''s in queue'';
          w1 = logger WARNING (Timed_out_in_queue tid wt) w;
          w2 = (if truthy_str (admin_webhook_url (settings e))
                then (case send_webhook e (the (admin_webhook_url (settings e)))
                             \<lparr> event = ''task_timeout'', payload_task_id = tid,
                               wait_time = wt, message = msg \<rparr> w1 of
                        (None, w') \<Rightarrow> w'
                      | (Some err, w') \<Rightarrow> logger ERROR (Webhook_failed err) w')
                else w1);
          w3 = (if truthy_str (admin_email (settings e))
                then send_email (the (admin_email (settings e)))
                       (''Task Timeout Alert: '' @ tid) msg w2
                else w2)
      in w3)"

section \<open>Task status (src/core/task_manager.py, get_task_status)\<close>

text \<open>
  \<open>AsyncResult(task_id)\<close> reads the backend at the current instant; Celery reports an id
  the backend does not know as \<open>PENDING\<close> with no result. \<open>successful()\<close> and \<open>failed()\<close>
  are Celery's tests of the state string.
\<close>

definition AsyncResult :: "world \<Rightarrow> string \<Rightarrow> task_meta" where
  "AsyncResult w tid =
     (case backend w (clock w) tid of
        None \<Rightarrow> \<lparr> meta_status = ''PENDING'', meta_result = PyNone \<rparr>
      | Some m \<Rightarrow> m)"

definition successful :: "task_meta \<Rightarrow> bool" where
  "successful m = (meta_status m = ''SUCCESS'')"

definition failed :: "task_meta \<Rightarrow> bool" where
  "failed m = (meta_status m = ''FAILURE'')"

text \<open>\<open>result.revoke(terminate=True)\<close> broadcasts a revoke request for the id.\<close>

definition revoke :: "string \<Rightarrow> world \<Rightarrow> world" where
  "revoke tid w = w\<lparr>revoked := revoked w @ [tid]\<rparr>"

text \<open>The status built before the timeout check (lines 117 to 122), given the decoded state.\<close>

definition initial_status :: "env \<Rightarrow> string \<Rightarrow> task_meta \<Rightarrow> TaskState \<Rightarrow> TaskStatus" where
  "initial_status e tid r st =
     \<lparr> task_id = tid,
       state = st,
       progress = None,
       result = (if successful r then meta_result r else PyNone),
       error = (if failed r then Some (py_str e (meta_result r)) else None),
       submitted_at = None,
       started_at = None,
       completed_at = None,
       subtasks = [] \<rparr>"

text \<open>The body of the branch taken when the wait exceeds the threshold (lines 133 to 141).\<close>

definition queue_timeout :: "env \<Rightarrow> world \<Rightarrow> string \<Rightarrow> TaskStatus \<Rightarrow> int \<Rightarrow> TaskStatus \<times> world" where
  "queue_timeout e w tid status wt =
     (let status1 = status\<lparr> state := TIMEOUT,
                            error := Some (''Task timeout after '' @ fmt_1f e wt @ ''s in queue'') \<rparr>;
          w1 = revoke tid w;
          w2 = notify_admin_timeout e w1 tid wt;
          w3 = logger WARNING (Task_timeout tid wt) w2
      in (status1, w3))"

text \<open>
  The timeout check (lines 125 to 141), entered when the raw state is \<open>PENDING\<close>. A value
  under \<open>submitted_at\<close> that is no string, or no ISO timestamp, or an aware one, raises.
\<close>

definition check_timeout :: "env \<Rightarrow> world \<Rightarrow> string \<Rightarrow> task_meta \<Rightarrow> TaskStatus \<Rightarrow> error + TaskStatus \<times> world" where
  "check_timeout e w tid r status =
     (case meta_result r of
        PyDict d \<Rightarrow>
          (case map_of d ''submitted_at'' of
             None \<Rightarrow> Inr (status, w)
           | Some (PyStr s) \<Rightarrow>
               (case fromisoformat e s of
                  None \<Rightarrow> Inl (ValueError (''Invalid isoformat string: '' @ s))
                | Some (Aware t) \<Rightarrow>
                    Inl (TypeError (''can'' @ CHR 0x27 # ''t subtract offset-naive and offset-aware datetimes''))
                | Some (Naive t) \<Rightarrow>
                    (let wt = clock w - t
                     in if wt > seconds (task_queue_timeout (settings e))
                        then Inr (queue_timeout e w tid status wt)
                        else Inr (status, w)))
           | Some _ \<Rightarrow> Inl (TypeError ''fromisoformat: argument must be str''))
      | _ \<Rightarrow> Inr (status, w))"

text \<open>
  \<open>get_task_status\<close>. The state is decoded first, so a state string outside the enum
  raises before anything else happens. Every exception is raised before the first effect:
  the world after a raise is the world the call was given. One call sees one snapshot of
  the backend.
\<close>

definition get_task_status :: "env \<Rightarrow> world \<Rightarrow> string \<Rightarrow> error + TaskStatus \<times> world" where
  "get_task_status e w tid =
     (let r = AsyncResult w tid
      in case TaskState_of (meta_status r) of
           Inl err \<Rightarrow> Inl err
         | Inr st \<Rightarrow>
             (let status = initial_status e tid r st
              in if meta_status r = ''PENDING''
                 then check_timeout e w tid r status
                 else Inr (status, w)))"

section \<open>Waiting for a task (src/core/task_manager.py, wait_for_task)\<close>

text \<open>
  The clock after a poll that began in \<open>w\<close>: the round trip has taken its time. This is the
  clock \<open>time.time()\<close> reads in the deadline test.
\<close>

definition polled :: "env \<Rightarrow> world \<Rightarrow> world" where
  "polled e w = w\<lparr>clock := clock w + int (poll_latency e (clock w))\<rparr>"

text \<open>
  \<open>time.sleep\<close>: a negative length raises \<open>ValueError\<close>; otherwise the process is suspended
  for at least the length asked for.
\<close>

definition slept :: "env \<Rightarrow> int \<Rightarrow> world \<Rightarrow> world" where
  "slept e d w = w\<lparr>clock := clock w + d + int (oversleep e (clock w))\<rparr>"

definition sleep :: "env \<Rightarrow> int \<Rightarrow> world \<Rightarrow> error + world" where
  "sleep e d w =
     (if d < 0 then Inl (ValueError ''sleep length must be non-negative'')
      else Inr (slept e d w))"

text \<open>Truthiness of the optional timeout: \<open>None\<close> and zero are false.\<close>

fun truthy_num :: "int option \<Rightarrow> bool" where
  "truthy_num None = False"
| "truthy_num (Some t) = (t \<noteq> 0)"

text \<open>The states that end the wait (lines 170 to 175).\<close>

definition is_done :: "TaskState \<Rightarrow> bool" where
  "is_done st = (st \<in> set [SUCCESS, FAILURE, TIMEOUT, REVOKED])"

text \<open>
  The \<open>while True\<close> loop. It may run forever, so it is a partial function: \<open>None\<close> is the
  call that never returns. An exception of \<open>get_task_status\<close> or of \<open>sleep\<close> leaves the loop.
  The timeout and the poll interval are in microseconds, as the clock is. The state is
  tested before the deadline, and the deadline only after a poll that was not terminal.
\<close>

partial_function (option) wait_loop ::
  "env \<Rightarrow> string \<Rightarrow> int option \<Rightarrow> int \<Rightarrow> int \<Rightarrow> world \<Rightarrow> (error + TaskStatus \<times> world) option" where
  "wait_loop e tid tmo poll_interval start_time w =
     (case get_task_status e w tid of
        Inl err \<Rightarrow> Some (Inl err)
      | Inr (status, w1) \<Rightarrow>
          if is_done (state status) then Some (Inr (status, polled e w1))
          else if truthy_num tmo \<and> clock (polled e w1) - start_time > the tmo
          then Some (Inr (status\<lparr>state := TIMEOUT, error := Some ''Client timeout''\<rparr>,
                          polled e w1))
          else (case sleep e poll_interval (polled e w1) of
                  Inl err \<Rightarrow> Some (Inl err)
                | Inr w2 \<Rightarrow> wait_loop e tid tmo poll_interval start_time w2))"

declare wait_loop.simps [code]

definition wait_for_task ::
  "env \<Rightarrow> world \<Rightarrow> string \<Rightarrow> int option \<Rightarrow> int \<Rightarrow> (error + TaskStatus \<times> world) option" where
  "wait_for_task e w tid tmo poll_interval = wait_loop e tid tmo poll_interval (clock w) w"

section \<open>Submitting subtasks (src/core/task_manager.py, submit_subtasks)\<close>

definition signature :: "Task \<Rightarrow> SubTaskConfig \<Rightarrow> Signature" where
  "signature task_func config =
     (case task_func of
        Task n ps \<Rightarrow>
          \<lparr> sig_task = n,
            sig_params = ps,
            sig_args = args config,
            sig_kwargs = kwargs config,
            sig_priority = priority config,
            sig_queue = queue config,
            sig_time_limit = timeout config \<rparr>)"

text \<open>
  The \<open>for\<close> loop (lines 75 to 87): the first config whose name the registry does not
  know raises; nothing is sent while the loop runs.
\<close>

fun build_signatures :: "env \<Rightarrow> SubTaskConfig list \<Rightarrow> error + Signature list" where
  "build_signatures e [] = Inr []"
| "build_signatures e (config # rest) =
     (case tasks e (name config) of
        None \<Rightarrow> Inl (ValueError (''Task '' @ name config @ '' not found''))
      | Some task_func \<Rightarrow>
          (case build_signatures e rest of
             Inl err \<Rightarrow> Inl err
           | Inr sigs \<Rightarrow> Inr (signature task_func config # sigs)))"

text \<open>
  The check Celery's \<open>Task.apply_async\<close> makes before it sends: the arguments are bound to
  the parameters of the task's function as a call would bind them, and a call that would
  not bind raises \<open>TypeError\<close> (the texts are abbreviated).
\<close>

definition check_arguments ::
  "(string \<times> bool) list \<Rightarrow> pyval list \<Rightarrow> (string \<times> pyval) list \<Rightarrow> error option" where
  "check_arguments params as kws =
     (let given = map fst (take (length as) params);
          rest = drop (length as) params;
          keys = map fst kws
      in if length params < length as
         then Some (TypeError ''too many positional arguments'')
         else if list_ex (\<lambda>k. k \<in> set given) keys
         then Some (TypeError ''multiple values for argument'')
         else if list_ex (\<lambda>k. k \<notin> set (map fst rest)) keys
         then Some (TypeError ''unexpected keyword argument'')
         else if list_ex (\<lambda>(n, has_default). \<not> has_default \<and> n \<notin> set keys) rest
         then Some (TypeError ''missing required argument'')
         else None)"

text \<open>
  The values the JSON serializer of the messages takes (\<open>task_serializer = json\<close>): an
  exception object is not among them, and sending one raises kombu's \<open>EncodeError\<close>.
\<close>

primrec json_ok :: "pyval \<Rightarrow> bool" where
  "json_ok PyNone = True"
| "json_ok (PyBool b) = True"
| "json_ok (PyInt i) = True"
| "json_ok (PyStr s) = True"
| "json_ok (PyExc m) = False"
| "json_ok (PyList xs) = list_all id (map json_ok xs)"
| "json_ok (PyDict d) = list_all snd (map (map_prod id json_ok) d)"

definition sig_json_ok :: "Signature \<Rightarrow> bool" where
  "sig_json_ok s = (list_all json_ok (sig_args s) \<and> list_all (\<lambda>(k, v). json_ok v) (sig_kwargs s))"

definition fresh_ids :: "env \<Rightarrow> world \<Rightarrow> nat \<Rightarrow> string list \<times> world" where
  "fresh_ids e w n =
     (map (uuid e) [next_uuid w ..< next_uuid w + n], w\<lparr>next_uuid := next_uuid w + n\<rparr>)"

definition publish :: "broker_message \<Rightarrow> world \<Rightarrow> world" where
  "publish m w = w\<lparr>broker := broker w @ [m]\<rparr>"

text \<open>
  Sending one signature under an id, with the later steps of a chain it starts: the
  arguments are checked, the message is serialized, and only then it is published.
\<close>

definition apply_async ::
  "string \<Rightarrow> Signature \<Rightarrow> (string \<times> Signature) list \<Rightarrow> world \<Rightarrow> error option \<times> world" where
  "apply_async i s later w =
     (case check_arguments (sig_params s) (sig_args s) (sig_kwargs s) of
        Some err \<Rightarrow> (Some err, w)
      | None \<Rightarrow>
          if sig_json_ok s \<and> list_all (\<lambda>(j, t). sig_json_ok t) later
          then (None, publish \<lparr> msg_id = i, msg_sig = s, msg_chain = later \<rparr> w)
          else (Some EncodeError, w))"

text \<open>The members of a group are sent one after the other; the first that raises ends it.\<close>

fun apply_members :: "(string \<times> Signature) list \<Rightarrow> world \<Rightarrow> error option \<times> world" where
  "apply_members [] w = (None, w)"
| "apply_members ((i, s) # ms) w =
     (case apply_async i s [] w of
        (Some err, w1) \<Rightarrow> (Some err, w1)
      | (None, w1) \<Rightarrow> apply_members ms w1)"

text \<open>
  Celery's \<open>group(tasks).apply_async()\<close>: an empty group is only frozen and sends nothing;
  otherwise every member gets an id and is sent, in order. The \<open>GroupResult\<close> lists the
  members' results in the order of the tasks; the first id drawn is the group's own.
\<close>

definition group_apply_async ::
  "env \<Rightarrow> world \<Rightarrow> Signature list \<Rightarrow> (error + string list) \<times> world" where
  "group_apply_async e w sigs =
     (case fresh_ids e w (Suc (length sigs)) of
        (ids, w1) \<Rightarrow>
          (let members = zip (tl ids) sigs
           in case apply_members members w1 of
                (Some err, w2) \<Rightarrow> (Inl err, w2)
              | (None, w2) \<Rightarrow> (Inr (map fst members), w2)))"

text \<open>
  Celery's \<open>chain(tasks).apply_async()\<close>: the steps are frozen from the last to the first,
  one message is sent (the first step, carrying the later ones), and the result returned is
  the last step's. Only the first step's arguments are checked. A chain with no step sends
  nothing and returns \<open>None\<close>.
\<close>

definition chain_apply_async ::
  "env \<Rightarrow> world \<Rightarrow> Signature list \<Rightarrow> (error + string option) \<times> world" where
  "chain_apply_async e w sigs =
     (if sigs = [] then (Inr None, w)
      else (case fresh_ids e w (length sigs) of
              (ids, w1) \<Rightarrow>
                (case zip (rev ids) sigs of
                   [] \<Rightarrow> (Inr None, w)
                 | (i, s) # later \<Rightarrow>
                     (case apply_async i s later w1 of
                        (Some err, w2) \<Rightarrow> (Inl err, w2)
                      | (None, w2) \<Rightarrow> (Inr (Some (fst (last ((i, s) # later)))), w2)))))"

text \<open>
  \<open>submit_subtasks\<close>. An exception of \<open>apply_async\<close> leaves the function. In the sequential
  branch \<open>result.id\<close> is read from what \<open>apply_async\<close> returned: on \<open>None\<close> the attribute
  access raises \<open>AttributeError\<close>.
\<close>

definition submit_subtasks ::
  "env \<Rightarrow> world \<Rightarrow> string \<Rightarrow> SubTaskConfig list \<Rightarrow> bool \<Rightarrow> (error + string list) \<times> world" where
  "submit_subtasks e w parent_task_id subtask_configs parallel_mode =
     (case build_signatures e subtask_configs of
        Inl err \<Rightarrow> (Inl err, w)
      | Inr sigs \<Rightarrow>
          if parallel_mode
          then (case group_apply_async e w sigs of
                  (Inl err, w1) \<Rightarrow> (Inl err, w1)
                | (Inr subtask_ids, w1) \<Rightarrow>
                    (Inr subtask_ids,
                     logger INFO
                       (Submitted_subtasks (length subtask_configs) parent_task_id subtask_ids) w1))
          else (case chain_apply_async e w sigs of
                  (Inl err, w1) \<Rightarrow> (Inl err, w1)
                | (Inr None, w1) \<Rightarrow>
                    (Inl (AttributeError
                       (CHR 0x27 # ''NoneType'' @ CHR 0x27 # '' object has no attribute ''
                          @ CHR 0x27 # ''id'' @ [CHR 0x27])), w1)
                | (Inr (Some rid), w1) \<Rightarrow>
                    (Inr [rid],
                     logger INFO
                       (Submitted_subtasks (length subtask_configs) parent_task_id [rid]) w1)))"

section \<open>Scratch storage (src/utils/storage.py) and cleanup\<close>















section \<open>Category routing (examples/image_super_resolution.py, lines 69 to 85)\<close>

definition dict_get :: "('k \<rightharpoonup> 'v) \<Rightarrow> 'k \<Rightarrow> 'v \<Rightarrow> 'v" where
  "dict_get m k d = (case m k of None \<Rightarrow> d | Some v \<Rightarrow> v)"

definition gpu_queue_map :: "Settings \<Rightarrow> string \<rightharpoonup> string" where
  "gpu_queue_map s =
     map_of [(''general'', queue_gpu_general s),
             (''portrait'', queue_gpu_portrait s),
             (''landscape'', queue_gpu_landscape s)]"

definition gpu_task_map :: "string \<rightharpoonup> string" where
  "gpu_task_map =
     map_of [(''general'', ''gpu_inference_general''),
             (''portrait'', ''gpu_inference_portrait''),
             (''landscape'', ''gpu_inference_landscape'')]"

definition gpu_queue :: "Settings \<Rightarrow> string \<Rightarrow> string" where
  "gpu_queue s category = dict_get (gpu_queue_map s) category (queue_gpu_general s)"

definition gpu_task_name :: "string \<Rightarrow> string" where
  "gpu_task_name category = dict_get gpu_task_map category ''gpu_inference_general''"

text \<open>
  The tasks the module src/workers/gpu\_worker.py defines; \<open>getattr\<close> on the module raises
  \<open>AttributeError\<close> for any other name.
\<close>

definition gpu_worker :: "string \<rightharpoonup> Task" where
  "gpu_worker =
     map_of [(''gpu_inference_general'',
              Task ''gpu_inference_general'' [(''task_id'', False), (''input_path'', False)]),
             (''gpu_inference_portrait'',
              Task ''gpu_inference_portrait'' [(''task_id'', False), (''input_path'', False)]),
             (''gpu_inference_landscape'',
              Task ''gpu_inference_landscape'' [(''task_id'', False), (''input_path'', False)])]"

definition getattr_gpu_worker :: "string \<Rightarrow> error + Task" where
  "getattr_gpu_worker n =
     (case gpu_worker n of
        None \<Rightarrow> Inl (AttributeError n)
      | Some t \<Rightarrow> Inr t)"

section \<open>Conditions and observations used in the statements\<close>

text \<open>
  The condition of the queue-wait timeout, read off the world before the call: the raw state
  is \<open>PENDING\<close>, the stored value is a dictionary whose \<open>submitted_at\<close> is a naive ISO
  timestamp, and the time since then exceeds \<open>task_queue_timeout\<close> seconds.
\<close>

definition waited_too_long :: "env \<Rightarrow> world \<Rightarrow> string \<Rightarrow> bool" where
  "waited_too_long e w tid =
     (meta_status (AsyncResult w tid) = ''PENDING'' \<and>
      (case meta_result (AsyncResult w tid) of
         PyDict d \<Rightarrow>
           (case map_of d ''submitted_at'' of
              Some (PyStr s) \<Rightarrow>
                (case fromisoformat e s of
                   Some (Naive t) \<Rightarrow> clock w - t > seconds (task_queue_timeout (settings e))
                 | _ \<Rightarrow> False)
            | _ \<Rightarrow> False)
       | _ \<Rightarrow> False))"

text \<open>
  The number of timeout notifications fired so far for a task id: every call of
  \<open>notify_admin_timeout\<close> writes one warning record of this form, and nothing else does.
\<close>

fun is_timeout_notice :: "string \<Rightarrow> log_level \<times> log_msg \<Rightarrow> bool" where
  "is_timeout_notice tid (lvl, Timed_out_in_queue t wt) = (t = tid)"
| "is_timeout_notice tid (lvl, m) = False"

definition timeout_notifications :: "world \<Rightarrow> string \<Rightarrow> nat" where
  "timeout_notifications w tid = length (filter (is_timeout_notice tid) (logs w))"

text \<open>
  The world in which the k-th poll begins, for a wait that began in \<open>w\<close> and whose earlier
  polls each took their time and were followed by a sleep; and the test that a poll in a
  world returns a status whose state does not end the wait.
\<close>

fun at_poll :: "env \<Rightarrow> world \<Rightarrow> int \<Rightarrow> nat \<Rightarrow> world" where
  "at_poll e w poll_interval 0 = w"
| "at_poll e w poll_interval (Suc k) = slept e poll_interval (polled e (at_poll e w poll_interval k))"

definition pending_poll :: "env \<Rightarrow> string \<Rightarrow> world \<Rightarrow> bool" where
  "pending_poll e tid v =
     (case get_task_status e v tid of
        Inl err \<Rightarrow> False
      | Inr (status, v') \<Rightarrow> \<not> is_done (state status))"

text \<open>
  What Celery accepts of a config whose name resolves: the arguments serialize, and they
  bind to the parameters of the task.
\<close>

definition serializable :: "SubTaskConfig \<Rightarrow> bool" where
  "serializable c = (list_all json_ok (args c) \<and> list_all (\<lambda>(k, v). json_ok v) (kwargs c))"



text \<open>Two calls of \<open>get_task_status\<close> on one id, the second in the world the first left.\<close>

definition poll_twice :: "env \<Rightarrow> world \<Rightarrow> string \<Rightarrow> error + (TaskStatus \<times> TaskStatus) \<times> world" where
  "poll_twice e w tid =
     (case get_task_status e w tid of
        Inl err \<Rightarrow> Inl err
      | Inr (s1, w1) \<Rightarrow>
          (case get_task_status e w1 tid of
             Inl err \<Rightarrow> Inl err
           | Inr (s2, w2) \<Rightarrow> Inr ((s1, s2), w2)))"

section \<open>A concrete environment and world\<close>

fun show_nat :: "nat \<Rightarrow> string" where
  "show_nat n =
     (if n < 10 then [char_of (48 + n)]
      else show_nat (n div 10) @ [char_of (48 + n mod 10)])"

text \<open>
  The default settings with a webhook configured; two registered tasks of
  src/workers/cpu\_worker.py; a parser that knows the epoch; a rendering of durations that
  cuts after one decimal; a round trip to the backend of one millisecond.
\<close>

definition env0 :: env where
  "env0 =
     \<lparr> settings = default_settings\<lparr>admin_webhook_url := Some ''http://admin/hook''\<rparr>,
       tasks = map_of
         [(''classify_image'',
           Task ''classify_image'' [(''task_id'', False), (''image_path'', False)]),
          (''encode_result'',
           Task ''encode_result''
             [(''task_id'', False), (''output_path'', False), (''quality'', True)])],
       fromisoformat = (\<lambda>s. if s = ''1970-01-01T00:00:00'' then Some (Naive 0) else None),
       py_str = (\<lambda>v. case v of PyExc m \<Rightarrow> m | PyStr s \<Rightarrow> s | _ \<Rightarrow> ''None''),
       fmt_1f = (\<lambda>t. show_nat (nat (t div 1000000)) @ ''.''
                       @ show_nat (nat (t mod 1000000 div 100000))),
       uuid = (\<lambda>n. ''id-'' @ show_nat n),
       http_post = (\<lambda>url payload. None),
       poll_latency = (\<lambda>t. 1000),
       oversleep = (\<lambda>t. 0),
       cwd = [''app''] \<rparr>"

text \<open>
  45 seconds after the epoch. Task \<open>t1\<close> has been pending since the epoch, \<open>t2\<close> is being
  retried, \<open>t3\<close> was revoked, \<open>t4\<close> failed, \<open>t5\<close> is running, \<open>t6\<close> succeeded.
\<close>

definition world0 :: world where
  "world0 =
     \<lparr> clock = seconds 45,
       backend = (\<lambda>t. map_of
         [(''t1'', \<lparr> meta_status = ''PENDING'',
                     meta_result = PyDict [(''submitted_at'', PyStr ''1970-01-01T00:00:00'')] \<rparr>),
          (''t2'', \<lparr> meta_status = ''RETRY'', meta_result = PyExc ''connection reset'' \<rparr>),
          (''t3'', \<lparr> meta_status = ''REVOKED'', meta_result = PyExc ''revoked'' \<rparr>),
          (''t4'', \<lparr> meta_status = ''FAILURE'', meta_result = PyExc ''boom'' \<rparr>),
          (''t5'', \<lparr> meta_status = ''STARTED'', meta_result = PyNone \<rparr>),
          (''t6'', \<lparr> meta_status = ''SUCCESS'', meta_result = PyStr ''/out.jpg'' \<rparr>)]),
       revoked = [],
       logs = [],
       webhooks = [],
       broker = [],
       next_uuid = 0,
       fs = Map.empty \<rparr>"

text \<open>
  A world in which task \<open>t7\<close> is pending at first, started a tenth of a second later, and
  has succeeded two tenths of a second later, as in the test of \<open>wait_for_task\<close>.
\<close>

definition world1 :: world where
  "world1 =
     world0\<lparr> backend := (\<lambda>t. map_of
       [(''t7'',
         if t < seconds 45 + 100000 then \<lparr> meta_status = ''PENDING'', meta_result = PyNone \<rparr>
         else if t < seconds 45 + 200000 then \<lparr> meta_status = ''STARTED'', meta_result = PyNone \<rparr>
         else \<lparr> meta_status = ''SUCCESS'', meta_result = PyDict [(''done'', PyBool True)] \<rparr>)]) \<rparr>"

text \<open>
  A world in which task \<open>t9\<close> is pending for five seconds and has succeeded after that.
\<close>

definition world4 :: world where
  "world4 =
     world0\<lparr> backend := (\<lambda>t. map_of
       [(''t9'',
         if t < seconds 50 then \<lparr> meta_status = ''PENDING'', meta_result = PyNone \<rparr>
         else \<lparr> meta_status = ''SUCCESS'', meta_result = PyStr ''/out.jpg'' \<rparr>)]) \<rparr>"



text \<open>
  Subtask configurations: two whose names are registered and whose arguments bind, one that
  gives a registered task no argument, one whose name is not registered.
\<close>

definition classify_config :: SubTaskConfig where
  "classify_config =
     \<lparr> name = ''classify_image'', worker_type = CPU, queue = ''cpu_queue'',
       args = [PyStr ''task1'', PyStr ''/path1''], kwargs = [], priority = 5, timeout = None \<rparr>"



definition unknown_config :: SubTaskConfig where
  "unknown_config =
     \<lparr> name = ''nonexistent_task'', worker_type = CPU, queue = ''cpu_queue'',
       args = [], kwargs = [], priority = 5, timeout = None \<rparr>"

section \<open>Facts about get_task_status\<close>

lemma waited_too_longD:
  assumes "waited_too_long e w tid"
  obtains d s t where "meta_status (AsyncResult w tid) = ''PENDING''"
    and "meta_result (AsyncResult w tid) = PyDict d"
    and "map_of d ''submitted_at'' = Some (PyStr s)"
    and "fromisoformat e s = Some (Naive t)"
    and "clock w - t > seconds (task_queue_timeout (settings e))"
  using assms unfolding waited_too_long_def
  by (auto split: pyval.splits option.splits datetime.splits)

lemma get_task_status_timed_out:
  assumes "waited_too_long e w tid"
  shows "\<exists>wt. seconds (task_queue_timeout (settings e)) < wt \<and>
           get_task_status e w tid =
             Inr (queue_timeout e w tid (initial_status e tid (AsyncResult w tid) PENDING) wt)"
proof -
  from assms obtain d s t where h: "meta_status (AsyncResult w tid) = ''PENDING''"
    "meta_result (AsyncResult w tid) = PyDict d"
    "map_of d ''submitted_at'' = Some (PyStr s)"
    "fromisoformat e s = Some (Naive t)"
    "clock w - t > seconds (task_queue_timeout (settings e))"
    by (rule waited_too_longD)
  have "get_task_status e w tid =
          Inr (queue_timeout e w tid (initial_status e tid (AsyncResult w tid) PENDING) (clock w - t))"
    using h by (simp add: get_task_status_def check_timeout_def TaskState_of_def Let_def)
  with h(5) show ?thesis by blast
qed

lemma get_task_status_quiet:
  assumes "\<not> waited_too_long e w tid" and "get_task_status e w tid = Inr (st, w')"
  shows "w' = w \<and> (\<exists>s. TaskState_of (meta_status (AsyncResult w tid)) = Inr s \<and>
           st = initial_status e tid (AsyncResult w tid) s)"
  using assms unfolding get_task_status_def check_timeout_def waited_too_long_def Let_def
  by (auto split: sum.splits if_splits pyval.splits option.splits datetime.splits)

lemma timeout_notifications_logger:
  "timeout_notifications (logger lvl m w) tid =
     timeout_notifications w tid + (if is_timeout_notice tid (lvl, m) then 1 else 0)"
  by (simp add: timeout_notifications_def logger_def)

lemma logs_notify_admin_timeout:
  "timeout_notifications (notify_admin_timeout e w tid wt) tid' =
     timeout_notifications w tid' + (if tid' = tid then 1 else 0)"
  by (auto simp: notify_admin_timeout_def send_webhook_def send_email_def Let_def
      timeout_notifications_def logger_def split: option.splits prod.splits)

lemma queue_timeout_effects:
  assumes "queue_timeout e w tid st wt = (st', w')"
  shows "state st' = TIMEOUT"
    and "error st' = Some (''Task timeout after '' @ fmt_1f e wt @ ''s in queue'')"
    and "revoked w' = revoked w @ [tid]"
    and "timeout_notifications w' tid' = timeout_notifications w tid' + (if tid' = tid then 1 else 0)"
    and "clock w' = clock w" and "backend w' = backend w"
    and "length (webhooks w') =
           length (webhooks w) + (if truthy_str (admin_webhook_url (settings e)) then 1 else 0)"
proof -
  have st': "st' = st\<lparr> state := TIMEOUT,
                            error := Some (''Task timeout after '' @ fmt_1f e wt @ ''s in queue'') \<rparr>"
    and w': "w' = logger WARNING (Task_timeout tid wt) (notify_admin_timeout e (revoke tid w) tid wt)"
    using assms by (simp_all add: queue_timeout_def Let_def)
  show "state st' = TIMEOUT" by (simp add: st')
  show "error st' = Some (''Task timeout after '' @ fmt_1f e wt @ ''s in queue'')" by (simp add: st')
  have keep: "revoked (notify_admin_timeout e v tid wt) = revoked v \<and>
              clock (notify_admin_timeout e v tid wt) = clock v \<and>
              backend (notify_admin_timeout e v tid wt) = backend v" for v
    by (auto simp: notify_admin_timeout_def send_webhook_def send_email_def Let_def logger_def
        split: option.splits prod.splits)
  have posts: "length (webhooks (notify_admin_timeout e v tid wt)) =
      length (webhooks v) + (if truthy_str (admin_webhook_url (settings e)) then 1 else 0)" for v
    by (auto simp: notify_admin_timeout_def send_webhook_def send_email_def Let_def logger_def
        split: option.splits prod.splits)
  show "length (webhooks w') =
           length (webhooks w) + (if truthy_str (admin_webhook_url (settings e)) then 1 else 0)"
    by (simp add: w' logger_def posts revoke_def)
  show "revoked w' = revoked w @ [tid]"
    by (simp add: w' logger_def keep revoke_def)
  show "clock w' = clock w" by (simp add: w' logger_def keep revoke_def)
  show "backend w' = backend w" by (simp add: w' logger_def keep revoke_def)
  have "timeout_notifications (revoke tid w) tid' = timeout_notifications w tid'"
    by (simp add: timeout_notifications_def revoke_def)
  then show "timeout_notifications w' tid' = timeout_notifications w tid' + (if tid' = tid then 1 else 0)"
    by (simp add: w' timeout_notifications_logger logs_notify_admin_timeout)
qed

lemma TaskState_of_names:
  assumes "TaskState_of x = Inr s"
  shows "(x = ''SUCCESS'') = (s = SUCCESS)" and "(x = ''FAILURE'') = (s = FAILURE)"
    and "(x = ''PENDING'') = (s = PENDING)"
  using assms by (auto simp: TaskState_of_def split: if_splits)

lemma waited_too_long_after:
  assumes "clock w' = clock w" and "backend w' = backend w"
  shows "waited_too_long e w' tid = waited_too_long e w tid"
  unfolding waited_too_long_def AsyncResult_def assms by (rule refl)

section \<open>Claims about get_task_status\<close>

text \<open>
  C10. When the raw state string read from the result store is none of the seven values of
  \<open>TaskState\<close> (Celery's \<open>RETRY\<close>, for one), \<open>get_task_status\<close> raises \<open>ValueError\<close>
  and returns no status: the decode at the store boundary is partial.
\<close>

theorem get_task_status_unknown_state_raises:
  assumes "meta_status (AsyncResult w tid) \<notin>
     {''PENDING'', ''RECEIVED'', ''STARTED'', ''SUCCESS'', ''FAILURE'', ''TIMEOUT'', ''REVOKED''}"
  shows "get_task_status e w tid =
     Inl (ValueError (CHR 0x27 # meta_status (AsyncResult w tid) @ CHR 0x27 # '' is not a valid TaskState''))"
  using assms by (simp add: get_task_status_def TaskState_of_def Let_def)

theorem get_task_status_unknown_state_raises_witness:
  "meta_status (AsyncResult world0 ''t2'') \<notin>
     {''PENDING'', ''RECEIVED'', ''STARTED'', ''SUCCESS'', ''FAILURE'', ''TIMEOUT'', ''REVOKED''}
   \<and> get_task_status env0 world0 ''t2'' =
       Inl (ValueError (CHR 0x27 # ''RETRY'' @ CHR 0x27 # '' is not a valid TaskState''))"
proof -
  have h: "meta_status (AsyncResult world0 ''t2'') \<notin>
     {''PENDING'', ''RECEIVED'', ''STARTED'', ''SUCCESS'', ''FAILURE'', ''TIMEOUT'', ''REVOKED''}"
    by (simp add: AsyncResult_def world0_def)
  have r: "meta_status (AsyncResult world0 ''t2'') = ''RETRY''"
    by (simp add: AsyncResult_def world0_def)
  show ?thesis
    using h get_task_status_unknown_state_raises [OF h, of env0] by (simp add: r)
qed

text \<open>
  C2. When the raw state is \<open>PENDING\<close>, the stored value is a dictionary whose
  \<open>submitted_at\<close> is a (naive) ISO timestamp, and the time since then exceeds
  \<open>task_queue_timeout\<close> seconds, the call returns a status with state \<open>TIMEOUT\<close> and the
  error message \<open>Task timeout after ...s in queue\<close>, a revoke request for the task id is
  issued, and one timeout notification is fired (with one POST to the webhook when one is
  configured).
\<close>

theorem get_task_status_queue_timeout:
  assumes "meta_status (AsyncResult w tid) = ''PENDING''"
    and "meta_result (AsyncResult w tid) = PyDict d"
    and "map_of d ''submitted_at'' = Some (PyStr s)"
    and "fromisoformat e s = Some (Naive t)"
    and "clock w - t > seconds (task_queue_timeout (settings e))"
  shows "\<exists>st w'. get_task_status e w tid = Inr (st, w')
           \<and> state st = TIMEOUT
           \<and> error st = Some (''Task timeout after '' @ fmt_1f e (clock w - t) @ ''s in queue'')
           \<and> revoked w' = revoked w @ [tid]
           \<and> timeout_notifications w' tid = timeout_notifications w tid + 1
           \<and> length (webhooks w') =
               length (webhooks w) + (if truthy_str (admin_webhook_url (settings e)) then 1 else 0)"
proof -
  obtain st w' where q:
    "queue_timeout e w tid (initial_status e tid (AsyncResult w tid) PENDING) (clock w - t) = (st, w')"
    by (cases "queue_timeout e w tid (initial_status e tid (AsyncResult w tid) PENDING) (clock w - t)")
  have "get_task_status e w tid = Inr (st, w')"
    using assms q by (simp add: get_task_status_def check_timeout_def TaskState_of_def Let_def)
  then show ?thesis
    using queue_timeout_effects(1,2,3,7)[OF q] queue_timeout_effects(4)[OF q, of tid] by simp
qed

theorem get_task_status_queue_timeout_witness:
  "meta_status (AsyncResult world0 ''t1'') = ''PENDING''
   \<and> meta_result (AsyncResult world0 ''t1'') = PyDict [(''submitted_at'', PyStr ''1970-01-01T00:00:00'')]
   \<and> fromisoformat env0 ''1970-01-01T00:00:00'' = Some (Naive 0)
   \<and> clock world0 - 0 > seconds (task_queue_timeout (settings env0))
   \<and> (\<exists>st w'. get_task_status env0 world0 ''t1'' = Inr (st, w')
           \<and> state st = TIMEOUT
           \<and> error st = Some ''Task timeout after 45.0s in queue''
           \<and> revoked w' = [''t1'']
           \<and> timeout_notifications w' ''t1'' = 1
           \<and> length (webhooks w') = 1)"
proof -
  have h1: "meta_status (AsyncResult world0 ''t1'') = ''PENDING''"
    by (simp add: AsyncResult_def world0_def)
  have h2: "meta_result (AsyncResult world0 ''t1'') = PyDict [(''submitted_at'', PyStr ''1970-01-01T00:00:00'')]"
    by (simp add: AsyncResult_def world0_def)
  have h3: "map_of [(''submitted_at'', PyStr ''1970-01-01T00:00:00'')] ''submitted_at''
              = Some (PyStr ''1970-01-01T00:00:00'')"
    by simp
  have h4: "fromisoformat env0 ''1970-01-01T00:00:00'' = Some (Naive 0)"
    by (simp add: env0_def)
  have h5: "clock world0 - 0 > seconds (task_queue_timeout (settings env0))"
    by (simp add: env0_def world0_def default_settings_def seconds_def)
  have f: "fmt_1f env0 (clock world0) = ''45.0''"
    by code_simp
  have n: "timeout_notifications world0 ''t1'' = 0" "revoked world0 = []" "webhooks world0 = []"
    "truthy_str (admin_webhook_url (settings env0))"
    by (simp_all add: timeout_notifications_def world0_def env0_def)
  show ?thesis using h1 h2 h4 h5 get_task_status_queue_timeout[OF h1 h2 h3 h4 h5] by (simp add: f n)
qed

text \<open>
  C1, as amended. The claim says that at most one timeout notification is ever fired for a
  task id. The code keeps no record of what it has notified: every returning call fires
  exactly one notification for its task id when the queue-wait condition holds and none
  otherwise, whatever was fired before, and a call that fires one leaves the condition as
  it found it, so the next call fires again.
\<close>

theorem timeout_notification_per_call:
  assumes "get_task_status e w tid = Inr (st, w')"
  shows "timeout_notifications w' tid' =
           timeout_notifications w tid' + (if tid' = tid \<and> waited_too_long e w tid then 1 else 0)
         \<and> waited_too_long e w' tid = waited_too_long e w tid"
proof (cases "waited_too_long e w tid")
  case True
  then obtain wt where
    "get_task_status e w tid =
       Inr (queue_timeout e w tid (initial_status e tid (AsyncResult w tid) PENDING) wt)"
    using get_task_status_timed_out by blast
  with assms have q: "queue_timeout e w tid (initial_status e tid (AsyncResult w tid) PENDING) wt = (st, w')"
    by simp
  have "waited_too_long e w' tid = waited_too_long e w tid"
    using queue_timeout_effects(5,6)[OF q] by (rule waited_too_long_after)
  then show ?thesis using True queue_timeout_effects(4)[OF q, of tid'] by simp
next
  case False
  with assms have "w' = w" using get_task_status_quiet by blast
  with False show ?thesis by simp
qed

theorem timeout_notification_per_call_witness:
  "get_task_status env0 world0 ''t1'' =
     Inr (queue_timeout env0 world0 ''t1''
            (initial_status env0 ''t1'' (AsyncResult world0 ''t1'') PENDING) (seconds 45))
   \<and> waited_too_long env0 world0 ''t1''
   \<and> timeout_notifications world0 ''t1'' = 0
   \<and> timeout_notifications
        (snd (queue_timeout env0 world0 ''t1''
            (initial_status env0 ''t1'' (AsyncResult world0 ''t1'') PENDING) (seconds 45))) ''t1'' = 1"
proof -
  have r: "AsyncResult world0 ''t1'' =
      \<lparr> meta_status = ''PENDING'',
        meta_result = PyDict [(''submitted_at'', PyStr ''1970-01-01T00:00:00'')] \<rparr>"
    by (simp add: AsyncResult_def world0_def)
  have c: "clock world0 = seconds 45" by (simp add: world0_def)
  have e: "fromisoformat env0 ''1970-01-01T00:00:00'' = Some (Naive 0)"
    "task_queue_timeout (settings env0) = 30"
    by (simp_all add: env0_def default_settings_def)
  have g: "get_task_status env0 world0 ''t1'' =
     Inr (fst (queue_timeout env0 world0 ''t1''
            (initial_status env0 ''t1'' (AsyncResult world0 ''t1'') PENDING) (seconds 45)),
          snd (queue_timeout env0 world0 ''t1''
            (initial_status env0 ''t1'' (AsyncResult world0 ''t1'') PENDING) (seconds 45)))"
    by (simp add: get_task_status_def check_timeout_def TaskState_of_def Let_def r c e seconds_def)
  have t: "waited_too_long env0 world0 ''t1''"
    by (simp add: waited_too_long_def r c e seconds_def)
  have n: "timeout_notifications world0 ''t1'' = 0"
    by (simp add: timeout_notifications_def world0_def)
  show ?thesis using g t n timeout_notification_per_call[OF g, of "''t1''"] by simp
qed

text \<open>
  The claim of C1 fails: two calls on the task \<open>t1\<close>, pending since the epoch, both return
  \<open>TIMEOUT\<close>, and two notifications have been fired where there was none (two warnings,
  two POSTs to the webhook, two revoke requests).
\<close>

theorem timeout_notification_fired_twice:
  "timeout_notifications world0 ''t1'' = 0 \<and>
   map_sum id (\<lambda>(ss, w2). (state (fst ss), state (snd ss),
                              timeout_notifications w2 ''t1'', length (webhooks w2), revoked w2))
     (poll_twice env0 world0 ''t1'') = Inr (TIMEOUT, TIMEOUT, 2, 2, [''t1'', ''t1''])"
  by code_simp

text \<open>
  C5, as amended. For a raw state other than \<open>PENDING\<close> that is a value of \<open>TaskState\<close>,
  the call returns a status with that state and leaves the world as it was; \<open>result\<close> is the
  stored value when the state is \<open>SUCCESS\<close> and \<open>None\<close> otherwise; \<open>error\<close> is the text of
  the stored exception when the state is \<open>FAILURE\<close> and \<open>None\<close> otherwise, so also for a
  raw \<open>TIMEOUT\<close> or \<open>REVOKED\<close>.
\<close>

theorem get_task_status_pass_through:
  assumes "meta_status (AsyncResult w tid) \<noteq> ''PENDING''"
    and "TaskState_of (meta_status (AsyncResult w tid)) = Inr s"
  shows "\<exists>st. get_task_status e w tid = Inr (st, w)
           \<and> state st = s
           \<and> result st = (if s = SUCCESS then meta_result (AsyncResult w tid) else PyNone)
           \<and> error st = (if s = FAILURE then Some (py_str e (meta_result (AsyncResult w tid))) else None)"
  using assms TaskState_of_names(1,2)[OF assms(2)]
  by (simp add: get_task_status_def initial_status_def successful_def failed_def Let_def)

theorem get_task_status_pass_through_witness:
  "meta_status (AsyncResult world0 ''t4'') \<noteq> ''PENDING''
   \<and> TaskState_of (meta_status (AsyncResult world0 ''t4'')) = Inr FAILURE
   \<and> (\<exists>st. get_task_status env0 world0 ''t4'' = Inr (st, world0)
           \<and> state st = FAILURE \<and> result st = PyNone \<and> error st = Some ''boom'')"
proof -
  have r: "AsyncResult world0 ''t4'' = \<lparr> meta_status = ''FAILURE'', meta_result = PyExc ''boom'' \<rparr>"
    by (simp add: AsyncResult_def world0_def)
  have h1: "meta_status (AsyncResult world0 ''t4'') \<noteq> ''PENDING''" by (simp add: r)
  have h2: "TaskState_of (meta_status (AsyncResult world0 ''t4'')) = Inr FAILURE"
    by (simp add: r TaskState_of_def)
  have p: "py_str env0 (PyExc ''boom'') = ''boom''" by (simp add: env0_def)
  show ?thesis using h1 h2 get_task_status_pass_through[OF h1 h2, of env0] by (simp add: r p)
qed

text \<open>
  The claim of C5 fails: the revoked task \<open>t3\<close> is reported with state \<open>REVOKED\<close> and no error.
\<close>

theorem revoked_status_without_error:
  "map_sum id (\<lambda>(st, w). (state st, error st)) (get_task_status env0 world0 ''t3'')
     = Inr (REVOKED, None)"
  by code_simp

section \<open>Facts about wait_for_task\<close>

lemma is_done_TIMEOUT: "is_done TIMEOUT" by (simp add: is_done_def)

lemma pending_poll_world:
  assumes "get_task_status e w tid = Inr (st, w')" and "\<not> is_done (state st)"
  shows "w' = w"
proof (cases "waited_too_long e w tid")
  case True
  then obtain wt where
    "get_task_status e w tid =
       Inr (queue_timeout e w tid (initial_status e tid (AsyncResult w tid) PENDING) wt)"
    using get_task_status_timed_out by blast
  with assms(1) have "queue_timeout e w tid (initial_status e tid (AsyncResult w tid) PENDING) wt = (st, w')"
    by simp
  then have "state st = TIMEOUT" by (rule queue_timeout_effects(1))
  with assms(2) show ?thesis by (simp add: is_done_TIMEOUT)
next
  case False
  with assms(1) show ?thesis using get_task_status_quiet by blast
qed

lemma pending_pollD:
  assumes "pending_poll e tid w"
  obtains st where "get_task_status e w tid = Inr (st, w)" and "\<not> is_done (state st)"
proof -
  from assms obtain st w' where g: "get_task_status e w tid = Inr (st, w')"
    and n: "\<not> is_done (state st)"
    by (auto simp: pending_poll_def split: sum.splits)
  from pending_poll_world[OF g n] g n that show thesis by simp
qed

lemma wait_loop_done:
  assumes "get_task_status e w tid = Inr (st, w')" and "is_done (state st)"
  shows "wait_loop e tid tmo p start w = Some (Inr (st, polled e w'))"
  using assms by (subst wait_loop.simps) simp

lemma wait_loop_expired:
  assumes "pending_poll e tid w" and "truthy_num tmo" and "the tmo < clock (polled e w) - start"
  shows "\<exists>st. wait_loop e tid tmo p start w =
           Some (Inr (st\<lparr>state := TIMEOUT, error := Some ''Client timeout''\<rparr>, polled e w))"
proof -
  from assms(1) obtain st where "get_task_status e w tid = Inr (st, w)" "\<not> is_done (state st)"
    by (rule pending_pollD)
  then have "wait_loop e tid tmo p start w =
           Some (Inr (st\<lparr>state := TIMEOUT, error := Some ''Client timeout''\<rparr>, polled e w))"
    using assms(2,3) by (subst wait_loop.simps) simp
  then show ?thesis ..
qed

lemma wait_loop_sleep:
  assumes "pending_poll e tid w"
    and "\<not> (truthy_num tmo \<and> the tmo < clock (polled e w) - start)"
    and "0 \<le> p"
  shows "wait_loop e tid tmo p start w = wait_loop e tid tmo p start (slept e p (polled e w))"
proof -
  from assms(1) obtain st where "get_task_status e w tid = Inr (st, w)" "\<not> is_done (state st)"
    by (rule pending_pollD)
  then show ?thesis
    using assms(2,3) by (subst wait_loop.simps) (auto simp: sleep_def)
qed

lemma at_poll_shift: "at_poll e (slept e p (polled e w)) p k = at_poll e w p (Suc k)"
  by (induction k) simp_all

lemma wait_loop_skip:
  assumes "0 \<le> p"
    and "\<forall>k<n. pending_poll e tid (at_poll e w p k)
            \<and> \<not> (truthy_num tmo \<and> the tmo < clock (polled e (at_poll e w p k)) - start)"
  shows "wait_loop e tid tmo p start w = wait_loop e tid tmo p start (at_poll e w p n)"
  using assms(2)
proof (induction n)
  case 0
  show ?case by simp
next
  case (Suc n)
  then have "wait_loop e tid tmo p start w = wait_loop e tid tmo p start (at_poll e w p n)"
    by simp
  also have "\<dots> = wait_loop e tid tmo p start (slept e p (polled e (at_poll e w p n)))"
  proof (rule wait_loop_sleep)
    show "pending_poll e tid (at_poll e w p n)" using Suc.prems by simp
    show "\<not> (truthy_num tmo \<and> the tmo < clock (polled e (at_poll e w p n)) - start)"
      using Suc.prems by simp
    show "0 \<le> p" by (rule assms(1))
  qed
  finally show ?case by simp
qed

lemma wait_loop_returns_done:
  assumes "wait_loop e tid tmo p start w = Some (Inr (st, w'))"
  shows "is_done (state st)"
proof -
  have "\<forall>st w'. y = Inr (st, w') \<longrightarrow> is_done (state st)"
    if y: "wait_loop e tid tmo p start w = Some y" for y
  proof (rule wait_loop.raw_induct
      [where P = "\<lambda>e tid tmo p start w y. \<forall>st w'. y = Inr (st, w') \<longrightarrow> is_done (state st)",
        OF _ y], goal_cases)
    case (1 f e tid tmo p start w y)
    from 1(2) show ?case
      by (auto simp: is_done_TIMEOUT split: sum.splits prod.splits if_splits dest: 1(1))
  qed
  with assms show ?thesis by blast
qed

lemma wait_loop_no_deadline:
  assumes "wait_loop e tid tmo p start w = Some (Inr (st, w'))" and "\<not> truthy_num tmo"
  shows "\<exists>k w1. (\<forall>j<k. pending_poll e tid (at_poll e w p j))
           \<and> get_task_status e (at_poll e w p k) tid = Inr (st, w1) \<and> w' = polled e w1"
proof -
  have "\<not> truthy_num tmo \<longrightarrow> (\<forall>st w'. y = Inr (st, w') \<longrightarrow>
          (\<exists>k w1. (\<forall>j<k. pending_poll e tid (at_poll e w p j))
             \<and> get_task_status e (at_poll e w p k) tid = Inr (st, w1) \<and> w' = polled e w1))"
    if y: "wait_loop e tid tmo p start w = Some y" for y
  proof (rule wait_loop.raw_induct
      [where P = "\<lambda>e tid tmo p start w y. \<not> truthy_num tmo \<longrightarrow> (\<forall>st w'. y = Inr (st, w') \<longrightarrow>
          (\<exists>k w1. (\<forall>j<k. pending_poll e tid (at_poll e w p j))
             \<and> get_task_status e (at_poll e w p k) tid = Inr (st, w1) \<and> w' = polled e w1))",
        OF _ y], goal_cases)
    case (1 f e tid tmo p start w y)
    show ?case
    proof (intro impI allI)
      fix st w'
      assume nt: "\<not> truthy_num tmo" and y: "y = Inr (st, w')"
      show "\<exists>k w1. (\<forall>j<k. pending_poll e tid (at_poll e w p j))
             \<and> get_task_status e (at_poll e w p k) tid = Inr (st, w1) \<and> w' = polled e w1"
      proof (cases "get_task_status e w tid")
        case (Inl err)
        with 1(2) y show ?thesis by simp
      next
        case (Inr r)
        obtain s1 w1 where r: "r = (s1, w1)" by (cases r)
        show ?thesis
        proof (cases "is_done (state s1)")
          case True
          with 1(2) Inr r y have "get_task_status e (at_poll e w p 0) tid = Inr (st, w1)
              \<and> w' = polled e w1"
            by simp
          then have "(\<forall>j<0::nat. pending_poll e tid (at_poll e w p j))
             \<and> get_task_status e (at_poll e w p 0) tid = Inr (st, w1) \<and> w' = polled e w1" by simp
          then show ?thesis by blast
        next
          case False
          with Inr r have w1: "w1 = w" using pending_poll_world by blast
          have pend: "pending_poll e tid w" using Inr r False by (simp add: pending_poll_def)
          from 1(2) Inr r False nt y obtain w2 where
            s: "sleep e p (polled e w) = Inr w2" and rec: "f e tid tmo p start w2 = Some (Inr (st, w'))"
            by (auto simp: w1 split: sum.splits)
          from s have w2: "w2 = slept e p (polled e w)"
            by (auto simp: sleep_def split: if_splits)
          from 1(1)[OF rec] nt obtain k v where
            k: "\<forall>j<k. pending_poll e tid (at_poll e w2 p j)"
               "get_task_status e (at_poll e w2 p k) tid = Inr (st, v)" "w' = polled e v"
            by blast
          have shift: "at_poll e w2 p j = at_poll e w p (Suc j)" for j
            unfolding w2 by (rule at_poll_shift)
          have "\<forall>j<Suc k. pending_poll e tid (at_poll e w p j)"
          proof (intro allI impI)
            fix j assume "j < Suc k"
            show "pending_poll e tid (at_poll e w p j)"
            proof (cases j)
              case 0
              with pend show ?thesis by simp
            next
              case (Suc i)
              with \<open>j < Suc k\<close> k(1) show ?thesis by (simp only: shift[symmetric])
            qed
          qed
          moreover have "get_task_status e (at_poll e w p (Suc k)) tid = Inr (st, v)"
            using k(2) by (simp only: shift)
          ultimately show ?thesis using k(3) by blast
        qed
      qed
    qed
  qed
  with assms show ?thesis by blast
qed

lemma wait_loop_diverges:
  assumes "\<not> truthy_num tmo" and "0 \<le> p" and "\<forall>k. pending_poll e tid (at_poll e w p k)"
  shows "wait_loop e tid tmo p start w = None"
proof (rule ccontr)
  assume "wait_loop e tid tmo p start w \<noteq> None"
  then obtain y where y: "wait_loop e tid tmo p start w = Some y" by auto
  have "\<not> truthy_num tmo \<longrightarrow> 0 \<le> p \<longrightarrow> \<not> (\<forall>k. pending_poll e tid (at_poll e w p k))"
  proof (rule wait_loop.raw_induct
      [where P = "\<lambda>e tid tmo p start w y.
          \<not> truthy_num tmo \<longrightarrow> 0 \<le> p \<longrightarrow> \<not> (\<forall>k. pending_poll e tid (at_poll e w p k))",
        OF _ y], goal_cases)
    case (1 f e tid tmo p start w y)
    show ?case
    proof (intro impI notI)
      assume nt: "\<not> truthy_num tmo" and p: "0 \<le> p"
        and all: "\<forall>k. pending_poll e tid (at_poll e w p k)"
      from all have "pending_poll e tid (at_poll e w p 0)" by blast
      then have pend: "pending_poll e tid w" by simp
      then obtain st where g: "get_task_status e w tid = Inr (st, w)" and nd: "\<not> is_done (state st)"
        by (rule pending_pollD)
      from 1(2) g nd nt p have rec: "f e tid tmo p start (slept e p (polled e w)) = Some y"
        by (auto simp: sleep_def split: sum.splits)
      have "\<forall>k. pending_poll e tid (at_poll e (slept e p (polled e w)) p k)"
      proof
        fix k
        from all have "pending_poll e tid (at_poll e w p (Suc k))" by blast
        then show "pending_poll e tid (at_poll e (slept e p (polled e w)) p k)"
          by (simp only: at_poll_shift)
      qed
      with 1(1)[OF rec] nt p show False by blast
    qed
  qed
  with assms show False by blast
qed

lemma at_poll_ex: "\<exists>c. at_poll e w p k = w\<lparr>clock := c\<rparr>"
proof (induction k)
  case 0
  show ?case by (rule exI[of _ "clock w"]) simp
next
  case (Suc k)
  then obtain c where "at_poll e w p k = w\<lparr>clock := c\<rparr>" by blast
  then have "at_poll e w p (Suc k) =
      w\<lparr>clock := clock (slept e p (polled e (w\<lparr>clock := c\<rparr>)))\<rparr>"
    by (simp add: slept_def polled_def)
  then show ?case by (rule exI)
qed

lemma at_poll_clock_only: "at_poll e w p k = w\<lparr>clock := clock (at_poll e w p k)\<rparr>"
proof -
  obtain c where c: "at_poll e w p k = w\<lparr>clock := c\<rparr>" using at_poll_ex by blast
  then have "clock (at_poll e w p k) = c" by simp
  with c show ?thesis by simp
qed

lemma polled_env0_clock: "clock (polled env0 w) = clock w + 1000"
  by (simp add: polled_def env0_def)

lemma slept_env0_clock: "clock (slept env0 p w) = clock w + p"
  by (simp add: slept_def env0_def)

lemma at_poll_env0: "clock (at_poll env0 w p k) = clock w + int k * (p + 1000)"
  by (induction k) (simp_all add: slept_env0_clock polled_env0_clock algebra_simps)

lemma world0_t5_pending: "pending_poll env0 ''t5'' (at_poll env0 world0 p k)"
proof -
  have "pending_poll env0 ''t5'' (world0\<lparr>clock := c\<rparr>)" for c
    by (simp add: pending_poll_def get_task_status_def AsyncResult_def world0_def
        TaskState_of_def is_done_def initial_status_def Let_def)
  then show ?thesis by (subst at_poll_clock_only) blast
qed

lemma world1_t7_pending:
  assumes "k < 2"
  shows "pending_poll env0 ''t7'' (at_poll env0 world1 100000 k)"
proof -
  have c: "clock (at_poll env0 world1 100000 k) = seconds 45 + int k * 101000"
    by (simp add: at_poll_env0 world1_def world0_def)
  from assms have "k = 0 \<or> k = 1" by auto
  then have "pending_poll env0 ''t7'' (world1\<lparr>clock := seconds 45 + int k * 101000\<rparr>)"
    by (auto simp: pending_poll_def get_task_status_def check_timeout_def AsyncResult_def
        world1_def world0_def seconds_def TaskState_of_def is_done_def initial_status_def Let_def)
  then show ?thesis by (subst at_poll_clock_only) (simp only: c)
qed

lemma world1_t7_done:
  "get_task_status env0 (at_poll env0 world1 100000 2) ''t7'' =
     Inr (initial_status env0 ''t7''
            \<lparr> meta_status = ''SUCCESS'', meta_result = PyDict [(''done'', PyBool True)] \<rparr> SUCCESS,
          at_poll env0 world1 100000 2)"
proof -
  have c: "clock (at_poll env0 world1 100000 2) = seconds 45 + 202000"
    by (simp add: at_poll_env0 world1_def world0_def)
  have "get_task_status env0 (world1\<lparr>clock := seconds 45 + 202000\<rparr>) ''t7'' =
     Inr (initial_status env0 ''t7''
            \<lparr> meta_status = ''SUCCESS'', meta_result = PyDict [(''done'', PyBool True)] \<rparr> SUCCESS,
          world1\<lparr>clock := seconds 45 + 202000\<rparr>)"
    by (simp add: get_task_status_def AsyncResult_def
        world1_def world0_def seconds_def TaskState_of_def Let_def)
  then show ?thesis by (subst (1 2) at_poll_clock_only) (simp only: c)
qed

lemma world1_t7_wait:
  "wait_for_task env0 world1 ''t7'' None 100000 =
     Some (Inr (initial_status env0 ''t7''
            \<lparr> meta_status = ''SUCCESS'', meta_result = PyDict [(''done'', PyBool True)] \<rparr> SUCCESS,
          polled env0 (at_poll env0 world1 100000 2)))"
proof -
  have "\<forall>k<2. pending_poll env0 ''t7'' (at_poll env0 world1 100000 k)
           \<and> \<not> (truthy_num None \<and> the None < clock (polled env0 (at_poll env0 world1 100000 k)) - clock world1)"
    using world1_t7_pending by simp
  then have "wait_loop env0 ''t7'' None 100000 (clock world1) world1 =
               wait_loop env0 ''t7'' None 100000 (clock world1) (at_poll env0 world1 100000 2)"
    by (intro wait_loop_skip) simp
  also have "\<dots> = Some (Inr (initial_status env0 ''t7''
            \<lparr> meta_status = ''SUCCESS'', meta_result = PyDict [(''done'', PyBool True)] \<rparr> SUCCESS,
          polled env0 (at_poll env0 world1 100000 2)))"
    by (rule wait_loop_done [OF world1_t7_done]) (simp add: initial_status_def is_done_def)
  finally show ?thesis by (simp add: wait_for_task_def)
qed

section \<open>Claims about wait_for_task\<close>

text \<open>
  C6, as amended. For a positive timeout and a poll interval that is not negative. The
  deadline is tested only after a poll that reported a non-terminal state, on the clock as
  it stands when that poll has returned. If the polls up to the n-th all report non-terminal
  states and, when the n-th has returned, more than the timeout has gone by since the call
  began, the call returns a status forced to \<open>TIMEOUT\<close> whose error is \<open>Client timeout\<close>.
  If the polls before the n-th report non-terminal states, none of them with more than the
  timeout gone by when it has returned, and the n-th reports a state among \<open>SUCCESS\<close>,
  \<open>FAILURE\<close>, \<open>TIMEOUT\<close>, \<open>REVOKED\<close>, that very status is returned, however long the sleep
  before that poll has lasted. Whatever status the call returns is in one of these four
  states, never in \<open>PENDING\<close>, \<open>RECEIVED\<close> or \<open>STARTED\<close>.
\<close>

theorem wait_for_task_client_timeout:
  assumes "0 < T" and "0 \<le> p"
  shows "((\<forall>k\<le>n. pending_poll e tid (at_poll e w p k))
            \<and> T < clock (polled e (at_poll e w p n)) - clock w
            \<longrightarrow> (\<exists>st w'. wait_for_task e w tid (Some T) p = Some (Inr (st, w'))
                    \<and> state st = TIMEOUT \<and> error st = Some ''Client timeout''))
       \<and> ((\<forall>k<n. pending_poll e tid (at_poll e w p k)
                 \<and> clock (polled e (at_poll e w p k)) - clock w \<le> T)
            \<and> get_task_status e (at_poll e w p n) tid = Inr (st, w1) \<and> is_done (state st)
            \<longrightarrow> wait_for_task e w tid (Some T) p = Some (Inr (st, polled e w1)))
       \<and> (wait_for_task e w tid (Some T) p = Some (Inr (st', w'')) \<longrightarrow> is_done (state st'))"
proof (intro conjI impI)
  assume h: "(\<forall>k\<le>n. pending_poll e tid (at_poll e w p k))
            \<and> T < clock (polled e (at_poll e w p n)) - clock w"
  define late where "late k \<longleftrightarrow> T < clock (polled e (at_poll e w p k)) - clock w" for k
  define m where "m = (LEAST k. late k)"
  have ln: "late n" using h by (simp add: late_def)
  have m: "late m" unfolding m_def using ln by (rule LeastI)
  have mn: "m \<le> n" unfolding m_def using ln by (rule Least_le)
  have before: "\<not> late k" if "k < m" for k
    using that not_less_Least unfolding m_def by blast
  have "\<forall>k<m. pending_poll e tid (at_poll e w p k)
           \<and> \<not> (truthy_num (Some T) \<and> the (Some T) < clock (polled e (at_poll e w p k)) - clock w)"
    using h mn before by (auto simp: late_def)
  then have "wait_loop e tid (Some T) p (clock w) w
               = wait_loop e tid (Some T) p (clock w) (at_poll e w p m)"
    using assms(2) by (intro wait_loop_skip) auto
  moreover have "\<exists>st. wait_loop e tid (Some T) p (clock w) (at_poll e w p m) =
           Some (Inr (st\<lparr>state := TIMEOUT, error := Some ''Client timeout''\<rparr>,
                      polled e (at_poll e w p m)))"
  proof (rule wait_loop_expired)
    show "pending_poll e tid (at_poll e w p m)" using h mn by simp
    show "truthy_num (Some T)" using assms(1) by simp
    show "the (Some T) < clock (polled e (at_poll e w p m)) - clock w"
      using m by (simp add: late_def)
  qed
  ultimately obtain st where
    "wait_for_task e w tid (Some T) p =
       Some (Inr (st\<lparr>state := TIMEOUT, error := Some ''Client timeout''\<rparr>,
                  polled e (at_poll e w p m)))"
    by (auto simp: wait_for_task_def)
  then show "\<exists>st w'. wait_for_task e w tid (Some T) p = Some (Inr (st, w'))
                    \<and> state st = TIMEOUT \<and> error st = Some ''Client timeout''"
    by simp
next
  assume h: "(\<forall>k<n. pending_poll e tid (at_poll e w p k)
                 \<and> clock (polled e (at_poll e w p k)) - clock w \<le> T)
            \<and> get_task_status e (at_poll e w p n) tid = Inr (st, w1) \<and> is_done (state st)"
  then have "\<forall>k<n. pending_poll e tid (at_poll e w p k)
      \<and> \<not> (truthy_num (Some T) \<and> the (Some T) < clock (polled e (at_poll e w p k)) - clock w)"
    by auto
  then have "wait_loop e tid (Some T) p (clock w) w
               = wait_loop e tid (Some T) p (clock w) (at_poll e w p n)"
    using assms(2) by (intro wait_loop_skip) auto
  also have "\<dots> = Some (Inr (st, polled e w1))"
    using h by (intro wait_loop_done) auto
  finally show "wait_for_task e w tid (Some T) p = Some (Inr (st, polled e w1))"
    by (simp add: wait_for_task_def)
next
  assume "wait_for_task e w tid (Some T) p = Some (Inr (st', w''))"
  then show "is_done (state st')"
    unfolding wait_for_task_def by (rule wait_loop_returns_done)
qed

theorem wait_for_task_client_timeout_witness:
  "pending_poll env0 ''t5'' (at_poll env0 world0 500000 0)
   \<and> pending_poll env0 ''t5'' (at_poll env0 world0 500000 1)
   \<and> pending_poll env0 ''t5'' (at_poll env0 world0 500000 2)
   \<and> seconds 1 < clock (polled env0 (at_poll env0 world0 500000 2)) - clock world0
   \<and> (\<exists>st w'. wait_for_task env0 world0 ''t5'' (Some (seconds 1)) 500000 = Some (Inr (st, w'))
       \<and> state st = TIMEOUT \<and> error st = Some ''Client timeout'')
   \<and> (\<exists>st w'. wait_for_task env0 world1 ''t7'' (Some (seconds 5)) 100000 = Some (Inr (st, w'))
       \<and> state st = SUCCESS \<and> result st = PyDict [(''done'', PyBool True)])"
proof -
  have late: "seconds 1 < clock (polled env0 (at_poll env0 world0 500000 2)) - clock world0"
    by (simp add: polled_env0_clock at_poll_env0 seconds_def)
  have pend: "\<forall>k\<le>2. pending_poll env0 ''t5'' (at_poll env0 world0 500000 k)"
    by (simp add: world0_t5_pending)
  have b: "(\<forall>k<2. pending_poll env0 ''t7'' (at_poll env0 world1 100000 k)
              \<and> clock (polled env0 (at_poll env0 world1 100000 k)) - clock world1 \<le> seconds 5)
      \<and> get_task_status env0 (at_poll env0 world1 100000 2) ''t7'' =
          Inr (initial_status env0 ''t7''
            \<lparr> meta_status = ''SUCCESS'', meta_result = PyDict [(''done'', PyBool True)] \<rparr> SUCCESS,
               at_poll env0 world1 100000 2)
      \<and> is_done (state (initial_status env0 ''t7''
            \<lparr> meta_status = ''SUCCESS'', meta_result = PyDict [(''done'', PyBool True)] \<rparr> SUCCESS))"
  proof (intro conjI allI impI)
    fix k :: nat assume k: "k < 2"
    show "pending_poll env0 ''t7'' (at_poll env0 world1 100000 k)"
      using k by (rule world1_t7_pending)
    have "int k * 101000 + 1000 \<le> 5000000" using k by simp
    then show "clock (polled env0 (at_poll env0 world1 100000 k)) - clock world1 \<le> seconds 5"
      by (simp add: polled_env0_clock at_poll_env0 seconds_def)
  next
    show "get_task_status env0 (at_poll env0 world1 100000 2) ''t7'' =
          Inr (initial_status env0 ''t7''
            \<lparr> meta_status = ''SUCCESS'', meta_result = PyDict [(''done'', PyBool True)] \<rparr> SUCCESS,
               at_poll env0 world1 100000 2)"
      by (rule world1_t7_done)
    show "is_done (state (initial_status env0 ''t7''
            \<lparr> meta_status = ''SUCCESS'', meta_result = PyDict [(''done'', PyBool True)] \<rparr> SUCCESS))"
      by (simp add: is_done_def initial_status_def)
  qed
  have p1: "(0::int) < seconds 1" "(0::int) < seconds 5" "(0::int) \<le> 500000" "(0::int) \<le> 100000"
    by (simp_all add: seconds_def)
  have c1: "\<exists>st w'. wait_for_task env0 world0 ''t5'' (Some (seconds 1)) 500000 = Some (Inr (st, w'))
       \<and> state st = TIMEOUT \<and> error st = Some ''Client timeout''"
    using pend late wait_for_task_client_timeout [OF p1(1) p1(3), of 2 env0 "''t5''" world0] by blast
  have "wait_for_task env0 world1 ''t7'' (Some (seconds 5)) 100000 =
      Some (Inr (initial_status env0 ''t7''
            \<lparr> meta_status = ''SUCCESS'', meta_result = PyDict [(''done'', PyBool True)] \<rparr> SUCCESS,
               polled env0 (at_poll env0 world1 100000 2)))"
    using b wait_for_task_client_timeout [OF p1(2) p1(4), of 2 env0 "''t7''" world1] by blast
  then have c2: "\<exists>st w'. wait_for_task env0 world1 ''t7'' (Some (seconds 5)) 100000 = Some (Inr (st, w'))
       \<and> state st = SUCCESS \<and> result st = PyDict [(''done'', PyBool True)]"
    by (simp add: initial_status_def successful_def)
  have p3: "pending_poll env0 ''t5'' (at_poll env0 world0 500000 0)"
    "pending_poll env0 ''t5'' (at_poll env0 world0 500000 1)"
    "pending_poll env0 ''t5'' (at_poll env0 world0 500000 2)"
    by (rule world0_t5_pending)+
  from p3 late c1 c2 show ?thesis by blast
qed

text \<open>
  The claim of C6 fails where the timeout runs out during a sleep: a wait with a timeout of
  one second and a poll interval of ten seconds, on the task \<open>t9\<close> that is finished five
  seconds after the call began, finds the task pending at the first poll, sleeps past the
  deadline, and returns the status \<open>SUCCESS\<close> of the second poll, not \<open>TIMEOUT\<close>.
\<close>

theorem wait_for_task_terminal_after_deadline:
  "pending_poll env0 ''t9'' world4
   \<and> seconds 1 < clock (at_poll env0 world4 (seconds 10) 1) - clock world4
   \<and> map_option (map_sum id (\<lambda>(st, w'). (state st, error st, result st)))
       (wait_for_task env0 world4 ''t9'' (Some (seconds 1)) (seconds 10))
       = Some (Inr (SUCCESS, None, PyStr ''/out.jpg''))"
  by code_simp

text \<open>
  C9. With the timeout \<open>None\<close> or 0 the client deadline is off: a status the call returns
  is the one \<open>get_task_status\<close> reported at some poll, in a terminal state, after polls
  that all reported non-terminal states; and when every poll reports a non-terminal state
  the call never returns.
\<close>

theorem wait_for_task_without_deadline:
  assumes "tmo = None \<or> tmo = Some 0"
  shows "(wait_for_task e w tid tmo p = Some (Inr (st, w')) \<longrightarrow>
            is_done (state st) \<and>
            (\<exists>k w1. (\<forall>j<k. pending_poll e tid (at_poll e w p j))
                \<and> get_task_status e (at_poll e w p k) tid = Inr (st, w1) \<and> w' = polled e w1))
       \<and> (0 \<le> p \<and> (\<forall>k. pending_poll e tid (at_poll e w p k)) \<longrightarrow>
            wait_for_task e w tid tmo p = None)"
proof -
  from assms have nt: "\<not> truthy_num tmo" by auto
  show ?thesis
    unfolding wait_for_task_def
    using wait_loop_returns_done[of e tid tmo p "clock w" w st w']
      wait_loop_no_deadline[of e tid tmo p "clock w" w st w', OF _ nt]
      wait_loop_diverges[OF nt, of p e tid w "clock w"]
    by blast
qed

theorem wait_for_task_without_deadline_witness:
  "(\<forall>k. pending_poll env0 ''t5'' (at_poll env0 world0 500000 k))
   \<and> wait_for_task env0 world0 ''t5'' (Some 0) 500000 = None
   \<and> wait_for_task env0 world0 ''t5'' None 500000 = None
   \<and> (\<exists>st w'. wait_for_task env0 world1 ''t7'' None 100000 = Some (Inr (st, w'))
         \<and> state st = SUCCESS \<and> is_done (state st)
         \<and> (\<exists>k w1. get_task_status env0 (at_poll env0 world1 100000 k) ''t7'' = Inr (st, w1)
                \<and> w' = polled env0 w1))"
proof -
  have a: "\<forall>k. pending_poll env0 ''t5'' (at_poll env0 world0 500000 k)"
    by (simp add: world0_t5_pending)
  have z: "Some (0::int) = None \<or> Some (0::int) = Some 0" by simp
  have n: "(None::int option) = None \<or> (None::int option) = Some 0" by simp
  have p: "(0::int) \<le> 500000" by simp
  have d: "wait_for_task env0 world0 ''t5'' (Some 0) 500000 = None
      \<and> wait_for_task env0 world0 ''t5'' None 500000 = None"
    using a p wait_for_task_without_deadline [OF z, of env0 world0 "''t5''" 500000]
      wait_for_task_without_deadline [OF n, of env0 world0 "''t5''" 500000]
    by blast
  have s: "state (initial_status env0 ''t7''
            \<lparr> meta_status = ''SUCCESS'', meta_result = PyDict [(''done'', PyBool True)] \<rparr> SUCCESS)
            = SUCCESS"
    by (simp add: initial_status_def)
  have "\<exists>st w'. wait_for_task env0 world1 ''t7'' None 100000 = Some (Inr (st, w'))
         \<and> state st = SUCCESS \<and> is_done (state st)
         \<and> (\<exists>k w1. get_task_status env0 (at_poll env0 world1 100000 k) ''t7'' = Inr (st, w1)
                \<and> w' = polled env0 w1)"
    using world1_t7_wait s
      wait_for_task_without_deadline [OF n, of env0 world1 "''t7''" 100000
        "initial_status env0 ''t7''
            \<lparr> meta_status = ''SUCCESS'', meta_result = PyDict [(''done'', PyBool True)] \<rparr> SUCCESS"
        "polled env0 (at_poll env0 world1 100000 2)"]
    by blast
  with a d show ?thesis by blast
qed

section \<open>Facts about submit_subtasks\<close>

lemma build_signatures_unknown:
  assumes "\<exists>c\<in>set cs. tasks e (name c) = None"
  shows "\<exists>c\<in>set cs. tasks e (name c) = None \<and>
           build_signatures e cs = Inl (ValueError (''Task '' @ name c @ '' not found''))"
  using assms
proof (induction cs)
  case Nil
  then show ?case by simp
next
  case (Cons c cs)
  show ?case
  proof (cases "tasks e (name c)")
    case None
    then show ?thesis by auto
  next
    case (Some t)
    with Cons.prems have "\<exists>c\<in>set cs. tasks e (name c) = None" by auto
    from Cons.IH[OF this] Some show ?thesis by auto
  qed
qed




lemma serializable_sig: "serializable c \<Longrightarrow> sig_json_ok (signature t c)"
  by (cases t) (simp add: signature_def sig_json_ok_def serializable_def)






section \<open>Claims about submit_subtasks\<close>

text \<open>
  C3. If the name of any config does not resolve in the task registry, \<open>submit_subtasks\<close>
  fails with the error of an unknown name (a \<open>ValueError\<close> naming such a config) and leaves
  the world, so also the broker, as it was: no subtask of any config is enqueued, in
  either mode.
\<close>

theorem submit_subtasks_unknown_name:
  assumes "\<exists>c\<in>set configs. tasks e (name c) = None"
  shows "\<exists>c\<in>set configs. tasks e (name c) = None \<and>
           submit_subtasks e w p configs par =
             (Inl (ValueError (''Task '' @ name c @ '' not found'')), w)"
proof -
  from build_signatures_unknown[OF assms] obtain c where
    "c \<in> set configs" "tasks e (name c) = None"
    "build_signatures e configs = Inl (ValueError (''Task '' @ name c @ '' not found''))"
    by blast
  then show ?thesis by (auto simp: submit_subtasks_def)
qed

theorem submit_subtasks_unknown_name_witness:
  "tasks env0 (name classify_config) \<noteq> None \<and> tasks env0 (name unknown_config) = None \<and>
   submit_subtasks env0 world0 ''parent'' [classify_config, unknown_config] True =
     (Inl (ValueError ''Task nonexistent_task not found''), world0)"
proof -
  have k: "tasks env0 (name classify_config) \<noteq> None"
    by (simp add: env0_def classify_config_def)
  have u: "tasks env0 (name unknown_config) = None"
    by (simp add: env0_def unknown_config_def)
  have h: "\<exists>c\<in>set [classify_config, unknown_config]. tasks env0 (name c) = None"
    using u by simp
  have n: "name unknown_config = ''nonexistent_task''" by (simp add: unknown_config_def)
  show ?thesis
    using k u submit_subtasks_unknown_name [OF h, of world0 "''parent''" True] by (auto simp: n)
qed




section \<open>Facts about the scratch storage\<close>































section \<open>Claims about cleanup\<close>



section \<open>Claims about category routing\<close>

text \<open>
  C8. A category other than \<open>general\<close>, \<open>portrait\<close> and \<open>landscape\<close> resolves to the queue
  \<open>queue_gpu_general\<close> and the capability \<open>gpu_inference_general\<close>; each known category
  resolves to its own queue setting and its own capability; the three capabilities differ,
  and so do the three queues under the default settings; and the capability resolved for
  any category is a task of the GPU worker module, so that the lookup never fails.
\<close>

theorem category_routing:
  "(category \<notin> {''general'', ''portrait'', ''landscape''} \<longrightarrow>
      gpu_queue s category = queue_gpu_general s \<and>
      gpu_task_name category = ''gpu_inference_general'')
   \<and> (gpu_queue s ''general'', gpu_task_name ''general'') =
       (queue_gpu_general s, ''gpu_inference_general'')
   \<and> (gpu_queue s ''portrait'', gpu_task_name ''portrait'') =
       (queue_gpu_portrait s, ''gpu_inference_portrait'')
   \<and> (gpu_queue s ''landscape'', gpu_task_name ''landscape'') =
       (queue_gpu_landscape s, ''gpu_inference_landscape'')
   \<and> distinct (map gpu_task_name [''general'', ''portrait'', ''landscape''])
   \<and> distinct (map (gpu_queue default_settings) [''general'', ''portrait'', ''landscape''])
   \<and> (\<exists>t. getattr_gpu_worker (gpu_task_name category) = Inr t)"
proof -
  have known: "gpu_task_name category \<in>
      {''gpu_inference_general'', ''gpu_inference_portrait'', ''gpu_inference_landscape''}"
    by (simp add: gpu_task_name_def gpu_task_map_def dict_get_def)
  then have "\<exists>t. getattr_gpu_worker (gpu_task_name category) = Inr t"
    by (auto simp: getattr_gpu_worker_def gpu_worker_def)
  then show ?thesis
    by (simp add: gpu_queue_def gpu_queue_map_def gpu_task_name_def gpu_task_map_def
        dict_get_def default_settings_def)
qed

theorem category_routing_witness:
  "''macro'' \<notin> {''general'', ''portrait'', ''landscape''}
   \<and> gpu_queue default_settings ''macro'' = ''gpu-general''
   \<and> gpu_task_name ''macro'' = ''gpu_inference_general''
   \<and> getattr_gpu_worker (gpu_task_name ''macro'') =
       Inr (Task ''gpu_inference_general'' [(''task_id'', False), (''input_path'', False)])"
proof -
  have h: "''macro'' \<notin> {''general'', ''portrait'', ''landscape''}" by simp
  have q: "queue_gpu_general default_settings = ''gpu-general''"
    by (simp add: default_settings_def)
  have g: "getattr_gpu_worker ''gpu_inference_general'' =
      Inr (Task ''gpu_inference_general'' [(''task_id'', False), (''input_path'', False)])"
    by (simp add: getattr_gpu_worker_def gpu_worker_def)
  show ?thesis
    using h category_routing [of "''macro''" default_settings] by (simp add: q g)
qed

end
